theory Spec2Isabelle
  imports Complex_Main "HOL-Library.Multiset" "HOL-Library.Sublist"
begin

section \<open>Data model\<close>

text \<open>
  The two debate sides (\<^verbatim>\<open>'side_a' | 'side_b'\<close>). An optional side
  (\<^verbatim>\<open>side?: ...\<close>, a nullable column) is a \<^typ>\<open>'a option\<close>.
\<close>

datatype side = side_a | side_b

text \<open>
  A timestamp is the number \<^verbatim>\<open>new Date(timestamp).getTime()\<close> reads from the
  \<^verbatim>\<open>timestamptz\<close> column: milliseconds since the epoch, an integer.
\<close>

type_synonym millis = int

text \<open>A row of \<^verbatim>\<open>messages\<close>, with the fields \<^verbatim>\<open>generateDebateSummary\<close> reads.\<close>

record message =
  m_content :: string
  m_side :: "side option"
  m_timestamp :: millis
  m_user_id :: "string option"

text \<open>A row of \<^verbatim>\<open>captions\<close> (interface \<^verbatim>\<open>Caption\<close> of useCaptions.ts).\<close>

record caption =
  c_id :: string
  c_room_id :: string
  c_user_id :: string
  c_participant_side :: "side option"
  c_content :: string
  c_confidence :: "real option"
  c_timestamp :: millis
  c_is_final :: bool

datatype source_kind = message_kind | caption_kind

text \<open>An element of \<^verbatim>\<open>allContent\<close> in gemini.ts.\<close>

record entry =
  e_content :: string
  e_side :: "side option"
  e_timestamp :: millis
  e_type :: source_kind
  e_user_id :: "string option"
  e_confidence :: "real option"

section \<open>Content aggregation (gemini.ts)\<close>

definition of_message :: "message \<Rightarrow> entry" where
  "of_message m =
     \<lparr>e_content = m_content m, e_side = m_side m, e_timestamp = m_timestamp m,
      e_type = message_kind, e_user_id = m_user_id m, e_confidence = None\<rparr>"

definition of_caption :: "caption \<Rightarrow> entry" where
  "of_caption c =
     \<lparr>e_content = c_content c, e_side = c_participant_side c, e_timestamp = c_timestamp c,
      e_type = caption_kind, e_user_id = None, e_confidence = c_confidence c\<rparr>"

text \<open>
  \<^verbatim>\<open>Array.prototype.sort(compare)\<close> is a stable sort: it returns the one
  permutation that is ordered by the comparator and keeps elements that compare equal in
  their order of the input. The model inserts every element, from the last to the first,
  in front of the first element it does not come after.
\<close>

fun insert_by :: "('a \<Rightarrow> 'a \<Rightarrow> int) \<Rightarrow> 'a \<Rightarrow> 'a list \<Rightarrow> 'a list" where
  "insert_by compare x [] = [x]"
| "insert_by compare x (y # ys) =
     (if compare x y \<le> 0 then x # y # ys else y # insert_by compare x ys)"

definition array_sort :: "('a \<Rightarrow> 'a \<Rightarrow> int) \<Rightarrow> 'a list \<Rightarrow> 'a list" where
  "array_sort compare xs = foldr (insert_by compare) xs []"

definition by_timestamp :: "entry \<Rightarrow> entry \<Rightarrow> int" where
  "by_timestamp a b = e_timestamp a - e_timestamp b"

definition allContent :: "message list \<Rightarrow> caption list \<Rightarrow> entry list" where
  "allContent messages captions =
     array_sort by_timestamp (map of_message messages @ map of_caption captions)"

definition sideContent :: "side \<Rightarrow> entry list \<Rightarrow> entry list" where
  "sideContent s all = filter (\<lambda>c. e_side c = Some s) all"

section \<open>Per-side arguments (useDebateSummary.ts)\<close>

record votes =
  v_side_a :: nat
  v_side_b :: nat

record SummaryData =
  d_topic :: string
  d_sideALabel :: string
  d_sideBLabel :: string
  d_messages :: "message list"
  d_votes :: votes
  d_captions :: "caption list"
  d_duration :: int
  d_participants :: nat

definition extractSideArguments :: "SummaryData \<Rightarrow> side \<Rightarrow> string list" where
  "extractSideArguments data s =
     (let sideContent =
            map m_content (filter (\<lambda>m. m_side m = Some s) (d_messages data)) @
            map c_content (filter (\<lambda>c. c_participant_side c = Some s) (d_captions data))
      in take 10 sideContent)"

text \<open>
  What the specification asks of \<^verbatim>\<open>perSideArguments\<close>, written from its words: the
  first ten entries of the side, in chronological order across messages and captions.
\<close>

definition chronological_side_arguments :: "SummaryData \<Rightarrow> side \<Rightarrow> string list" where
  "chronological_side_arguments data s =
     take 10 (map e_content (sideContent s (allContent (d_messages data) (d_captions data))))"

section \<open>Caption stream reader (useCaptions.ts)\<close>

text \<open>
  \<^verbatim>\<open>fetchCaptions\<close>: the rows of the room that are final, by ascending timestamp
  (the store's \<^verbatim>\<open>order\<close> clause, a sort on the column).
\<close>

definition fetchCaptions :: "caption list \<Rightarrow> string \<Rightarrow> caption list" where
  "fetchCaptions table roomId =
     sort_key c_timestamp
       (filter (\<lambda>c. c_room_id c = roomId \<and> c_is_final c) table)"

text \<open>
  The change feed delivers the inserted rows that pass the subscription's filter
  \<^verbatim>\<open>room_id=eq.${roomId}\<close>; the callback appends \<^verbatim>\<open>payload.new\<close> as it is.
\<close>

definition delivered :: "string \<Rightarrow> caption list \<Rightarrow> caption list" where
  "delivered roomId inserted = filter (\<lambda>c. c_room_id c = roomId) inserted"

definition on_insert :: "caption list \<Rightarrow> caption \<Rightarrow> caption list" where
  "on_insert prev new = prev @ [new]"

text \<open>
  The reader's view after the bulk fetch on \<open>table\<close> has answered
  (\<^verbatim>\<open>setCaptions(data || [])\<close>) and the rows \<open>inserted\<close> have been written to the
  store afterwards, each one notified to the callback in its turn.
\<close>

definition useCaptions :: "caption list \<Rightarrow> string \<Rightarrow> caption list \<Rightarrow> caption list" where
  "useCaptions table roomId inserted =
     foldl on_insert (fetchCaptions table roomId) (delivered roomId inserted)"

section \<open>Summary synthesis (gemini.ts)\<close>

text \<open>
  Strings are lists of characters. \<^verbatim>\<open>String(n)\<close> of a count is its decimal
  numeral, \<^verbatim>\<open>items.join(sep)\<close> puts the separator between the items.
\<close>

fun decimal :: "nat \<Rightarrow> string" where
  "decimal n =
     (if n < 10 then [''0123456789'' ! n]
      else decimal (n div 10) @ [''0123456789'' ! (n mod 10)])"

fun join :: "string \<Rightarrow> string list \<Rightarrow> string" where
  "join sep [] = []"
| "join sep [x] = x"
| "join sep (x # y # ys) = x @ sep @ join sep (y # ys)"

text \<open>
  \<^verbatim>\<open>items.slice(0, 5).map(item => `- ${item.content}`).join('\n') || '- No arguments recorded'\<close>:
  the empty string is the only falsy string.
\<close>

definition top_contributions :: "entry list \<Rightarrow> string" where
  "top_contributions items =
     (let joined = join ''\<newline>'' (map (\<lambda>item. ''- '' @ e_content item) (take 5 items))
      in if joined \<noteq> [] then joined else ''- No arguments recorded'')"

text \<open>
  \<^verbatim>\<open>error instanceof Error ? error.message : 'Unknown error'\<close>: a caught value is
  \<open>Some message\<close> when it is an \<^verbatim>\<open>Error\<close>, and \<open>None\<close> otherwise.
\<close>

definition error_message :: "string option \<Rightarrow> string" where
  "error_message error = (case error of Some message \<Rightarrow> message | None \<Rightarrow> ''Unknown error'')"

text \<open>
  The percentages are \<^verbatim>\<open>((votes.side_a / totalVotes) * 100).toFixed(1)\<close>, a
  rendering of a floating-point number by the host. The rendering is the parameter
  \<open>toFixed1\<close>, given the count and the total; everything else of the template is
  computed here. The template is the literal of the \<^verbatim>\<open>catch\<close> block, piece by piece.
\<close>

definition fallbackSummary ::
  "(nat \<Rightarrow> nat \<Rightarrow> string) \<Rightarrow> string \<Rightarrow> message list \<Rightarrow> votes \<Rightarrow> caption list \<Rightarrow>
   string \<Rightarrow> string \<Rightarrow> string option \<Rightarrow> string" where
  \<open>fallbackSummary toFixed1 topic messages votes captions sideALabel sideBLabel error =
     (let sideAContent = sideContent side_a (allContent messages captions);
          sideBContent = sideContent side_b (allContent messages captions);
          totalVotes = v_side_a votes + v_side_b votes;
          sideAPercentage = (if totalVotes > 0 then toFixed1 (v_side_a votes) totalVotes else ''0'');
          sideBPercentage = (if totalVotes > 0 then toFixed1 (v_side_b votes) totalVotes else ''0'')
      in concat
        [''# Debate Summary: '',
         topic,
         ''\<newline>'',
         ''\<newline>'',
         ''## Executive Summary\<newline>'',
         ''This debate on "'',
         topic,
         ''" generated '',
         decimal (length messages),
         '' chat messages and '',
         decimal (length captions),
         '' speech contributions, with '',
         decimal totalVotes,
         '' participants casting votes. The discussion concluded with '',
         sideALabel,
         '' receiving '',
         decimal (v_side_a votes),
         '' votes ('',
         sideAPercentage,
         ''%) and '',
         sideBLabel,
         '' receiving '',
         decimal (v_side_b votes),
         '' votes ('',
         sideBPercentage,
         ''%).\<newline>'',
         ''\<newline>'',
         ''## Debate Overview\<newline>'',
         ''The debate featured structured discussion between '',
         sideALabel,
         '' and '',
         sideBLabel,
         '' positions, with participants contributing through both text chat and live speech. The format allowed for real-time audience engagement and voting.\<newline>'',
         ''\<newline>'',
         ''## Key Arguments\<newline>'',
         ''\<newline>'',
         ''### '',
         sideALabel,
         '' Position ('',
         decimal (length sideAContent),
         '' contributions):\<newline>'',
         top_contributions sideAContent,
         ''\<newline>'',
         ''\<newline>'',
         ''### '',
         sideBLabel,
         '' Position ('',
         decimal (length sideBContent),
         '' contributions):\<newline>'',
         top_contributions sideBContent,
         ''\<newline>'',
         ''\<newline>'',
         ''## Voting Results\<newline>'',
         ''- **'',
         sideALabel,
         '':** '',
         decimal (v_side_a votes),
         '' votes ('',
         sideAPercentage,
         ''%)\<newline>'',
         ''- **'',
         sideBLabel,
         '':** '',
         decimal (v_side_b votes),
         '' votes ('',
         sideBPercentage,
         ''%)\<newline>'',
         ''\<newline>'',
         ''## Discussion Timeline\<newline>'',
         ''The debate included:\<newline>'',
         ''- '',
         decimal (length messages),
         '' text messages from participants\<newline>'',
         ''- '',
         decimal (length captions),
         '' speech-to-text captions from anchors\<newline>'',
         ''- Real-time voting by '',
         decimal totalVotes,
         '' participants\<newline>'',
         ''\<newline>'',
         ''## Conclusion\<newline>'',
         ''This debate provided valuable insights into different perspectives on '',
         topic,
         ''. The voting results reflect the audience'',
         [CHR 0x27],
         ''s response to the arguments presented by both sides.\<newline>'',
         ''\<newline>'',
         ''*Note: This is a basic summary. AI-powered analysis is temporarily unavailable due to: '',
         error_message error,
         ''*''])\<close>

text \<open>
  What the generative service answers to the request, as the \<^verbatim>\<open>try\<close> block sees it:
  an exception raised by the host (\<^verbatim>\<open>fetch\<close> rejects, the body is not JSON, ...), a
  response that is not ok with its status, status text and
  \<^verbatim>\<open>errorData.error?.message\<close>, or an ok response with the text found at
  \<^verbatim>\<open>data.candidates?.[0]?.content?.parts?.[0]?.text\<close>, if any.
\<close>

datatype service_answer =
    Thrown "string option"
  | NotOk nat string "string option"
  | Ok "string option"

text \<open>The \<^verbatim>\<open>try\<close> block: \<open>Inr\<close> the generated text, \<open>Inl\<close> the value thrown.\<close>

fun try_generate :: "service_answer \<Rightarrow> string option + string" where
  "try_generate (Thrown error) = Inl error"
| "try_generate (NotOk status statusText message) =
     Inl (Some (''Gemini API error: '' @ decimal status @ '' '' @ statusText @ ''. '' @
        (case message of Some m \<Rightarrow> m | None \<Rightarrow> [])))"
| "try_generate (Ok generatedText) =
     (case generatedText of
        None \<Rightarrow> Inl (Some ''No content generated by Gemini API'')
      | Some text \<Rightarrow>
          if text = [] then Inl (Some ''No content generated by Gemini API'') else Inr text)"

text \<open>
  \<^verbatim>\<open>generateDebateSummary\<close>. \<open>GEMINI_API_KEY\<close> is the module constant read from the
  environment, \<open>None\<close> when it is not set. \<open>Inl\<close> is the error thrown to the caller,
  \<open>Inr\<close> the content returned. The prompt reaches the result only through the answer of
  the service.
\<close>

definition generateDebateSummary ::
  "string option \<Rightarrow> (nat \<Rightarrow> nat \<Rightarrow> string) \<Rightarrow> service_answer \<Rightarrow> string \<Rightarrow> message list \<Rightarrow>
   votes \<Rightarrow> caption list \<Rightarrow> string \<Rightarrow> string \<Rightarrow> string + string" where
  "generateDebateSummary GEMINI_API_KEY toFixed1 answer topic messages votes captions
     sideALabel sideBLabel =
     (if GEMINI_API_KEY = None \<or> GEMINI_API_KEY = Some [] then
        Inl ''Gemini API key not configured. Please add VITE_GEMINI_API_KEY to your environment variables.''
      else
        (case try_generate answer of
           Inr generatedText \<Rightarrow> Inr generatedText
         | Inl error \<Rightarrow>
             Inr (fallbackSummary toFixed1 topic messages votes captions
                    sideALabel sideBLabel error)))"

section \<open>Recognition session (useSpeechRecognition.ts)\<close>

text \<open>
  The arguments of the hook, and whether the host has a recognizer
  (\<^verbatim>\<open>window.SpeechRecognition || window.webkitSpeechRecognition\<close>).
\<close>

record props =
  p_roomId :: string
  p_userId :: string
  p_participantSide :: "side option"
  p_isAnchor :: bool
  p_autoStart :: bool
  p_hostSupported :: bool

text \<open>
  A result event of the recognizer: \<^verbatim>\<open>event.resultIndex\<close> and
  \<^verbatim>\<open>event.results\<close>, each result with the transcript and the confidence of its first
  alternative and its \<^verbatim>\<open>isFinal\<close> mark. A confidence the host omits (or one that is
  not a number) is \<open>None\<close>.
\<close>

record speech_result =
  r_transcript :: string
  r_confidence :: "real option"
  r_isFinal :: bool

record result_event =
  resultIndex :: nat
  results :: "speech_result list"

text \<open>The object passed to \<^verbatim>\<open>supabase.from('captions').insert\<close>.\<close>

record caption_insert =
  i_room_id :: string
  i_user_id :: string
  i_participant_side :: side
  i_content :: string
  i_confidence :: real
  i_is_final :: bool

text \<open>
  The handlers of a recognition object are closures of the effect that created it: they
  read \<^verbatim>\<open>autoRestartCount\<close> and \<^verbatim>\<open>isListening\<close> as they were when the effect ran.
\<close>

record closure =
  k_autoRestartCount :: nat
  k_isListening :: bool

text \<open>
  A timer of the host, pending until it fires or is cleared. The restart timer is the one
  \<^verbatim>\<open>onend\<close> creates; the retry timer is the one its callback creates when
  \<^verbatim>\<open>start()\<close> throws. A callback reads the \<^verbatim>\<open>isListening\<close> of its closure.
\<close>

datatype timer_kind = restart_timer | retry_timer

record timer =
  t_handle :: nat
  t_delay :: nat
  t_kind :: timer_kind
  t_isListening :: bool

datatype start_origin = by_startListening | by_timer

text \<open>
  The state of one mounted hook: the React state, the refs, the recognition objects
  created so far (a recognition is its index in \<open>instances\<close>), the pending timers of
  the host, and what the hook has asked of the outside so far: the delays of the restart
  timers \<^verbatim>\<open>onend\<close> created, the calls of \<^verbatim>\<open>start()\<close> that returned, the calls
  of \<^verbatim>\<open>stop()\<close>, and the caption rows sent to the store.
\<close>

record session =
  isListening :: bool
  transcript :: string
  error :: string
  isSupported :: bool
  autoRestartCount :: nat
  recognitionRef :: "nat option"
  finalTranscriptRef :: string
  autoRestartTimeoutRef :: "nat option"
  instances :: "closure list"
  pending :: "timer list"
  nextHandle :: nat
  scheduled :: "nat list"
  starts :: "start_origin list"
  stops :: "nat list"
  inserts :: "caption_insert list"

definition initial :: session where
  "initial =
     \<lparr>isListening = False, transcript = [], error = [], isSupported = False,
      autoRestartCount = 0, recognitionRef = None, finalTranscriptRef = [],
      autoRestartTimeoutRef = None, instances = [], pending = [], nextHandle = 1,
      scheduled = [], starts = [], stops = [], inserts = []\<rparr>"

subsection \<open>Host functions\<close>

text \<open>\<^verbatim>\<open>setTimeout\<close> returns a fresh handle (a positive number, so a truthy one).\<close>

definition setTimeout :: "timer_kind \<Rightarrow> bool \<Rightarrow> nat \<Rightarrow> session \<Rightarrow> nat \<times> session" where
  "setTimeout kind listening delay s =
     (nextHandle s,
      s\<lparr>pending := pending s @
            [\<lparr>t_handle = nextHandle s, t_delay = delay, t_kind = kind,
              t_isListening = listening\<rparr>],
        nextHandle := Suc (nextHandle s)\<rparr>)"

definition clearTimeout :: "nat \<Rightarrow> session \<Rightarrow> session" where
  "clearTimeout h s = s\<lparr>pending := filter (\<lambda>t. t_handle t \<noteq> h) (pending s)\<rparr>"

text \<open>
  \<^verbatim>\<open>String.prototype.trim\<close> removes white space and line terminators at both ends;
  of the characters of this model these are tab, line feed, vertical tab, form feed,
  carriage return, space and no-break space.
\<close>

definition is_space :: "char \<Rightarrow> bool" where
  "is_space c = (c \<in> set [CHR 0x09, CHR 0x0A, CHR 0x0B, CHR 0x0C, CHR 0x0D, CHR 0x20, CHR 0xA0])"

definition trim :: "string \<Rightarrow> string" where
  "trim s = rev (dropWhile is_space (rev (dropWhile is_space s)))"

subsection \<open>Handlers of the recognition object\<close>

definition onstart :: "session \<Rightarrow> session" where
  "onstart s = s\<lparr>isListening := True, error := [], autoRestartCount := 0\<rparr>"

text \<open>The condition of the \<^verbatim>\<open>if\<close> in \<^verbatim>\<open>onend\<close>, on the closure's count.\<close>

definition restart_enabled :: "props \<Rightarrow> closure \<Rightarrow> bool" where
  "restart_enabled p k =
     (p_isAnchor p \<and> p_autoStart p \<and> p_participantSide p \<noteq> None \<and> k_autoRestartCount k < 10)"

definition onend :: "props \<Rightarrow> closure \<Rightarrow> session \<Rightarrow> session" where
  "onend p k s =
     (let s1 = s\<lparr>isListening := False\<rparr> in
      if restart_enabled p k then
        (let s2 = s1\<lparr>autoRestartCount := autoRestartCount s1 + 1\<rparr>;
             delay = 1000 + k_autoRestartCount k * 500;
             (h, s3) = setTimeout restart_timer (k_isListening k) delay s2
         in s3\<lparr>autoRestartTimeoutRef := Some h, scheduled := scheduled s3 @ [delay]\<rparr>)
      else s1)"

definition onerror :: "string \<Rightarrow> session \<Rightarrow> session" where
  "onerror code s =
     (let s1 = s\<lparr>isListening := False\<rparr> in
      if code = ''not-allowed'' then
        s1\<lparr>error := ''Microphone access denied. Please allow microphone access for automatic captions.''\<rparr>
      else if code = ''no-speech'' then s1
      else if code = ''network'' then
        s1\<lparr>error := ''Network error. Captions will retry automatically.''\<rparr>
      else s1\<lparr>error := ''Speech recognition error: '' @ code\<rparr>)"

text \<open>
  The loop of \<^verbatim>\<open>onresult\<close> over the results from \<^verbatim>\<open>event.resultIndex\<close> on,
  with its two accumulators \<^verbatim>\<open>(interimTranscript, finalTranscript)\<close>.
\<close>

fun scan_results :: "speech_result list \<Rightarrow> string \<times> string \<Rightarrow> string \<times> string" where
  "scan_results [] acc = acc"
| "scan_results (r # rs) (interimTranscript, finalTranscript) =
     (if r_isFinal r then scan_results rs (interimTranscript, finalTranscript @ r_transcript r)
      else scan_results rs (interimTranscript @ r_transcript r, finalTranscript))"

text \<open>\<^verbatim>\<open>event.results[event.resultIndex]?.[0]?.confidence\<close>\<close>

definition first_confidence :: "result_event \<Rightarrow> real option" where
  "first_confidence event =
     (if resultIndex event < length (results event)
      then r_confidence (results event ! resultIndex event) else None)"

text \<open>\<^verbatim>\<open>x || 0.9\<close>: the default replaces every falsy value, zero included.\<close>

definition or_default :: "real option \<Rightarrow> real" where
  "or_default x = (case x of None \<Rightarrow> 9 / 10 | Some c \<Rightarrow> if c = 0 then 9 / 10 else c)"

text \<open>
  The row is sent to the store without waiting for it; a failed insert is logged and
  changes nothing in the hook.
\<close>

definition onresult :: "props \<Rightarrow> result_event \<Rightarrow> session \<Rightarrow> session" where
  "onresult p event s =
     (let (interimTranscript, finalTranscript) =
            scan_results (drop (resultIndex event) (results event)) ([], []);
          s1 = s\<lparr>transcript := finalTranscriptRef s @ finalTranscript @ interimTranscript\<rparr>
      in case p_participantSide p of
           None \<Rightarrow> s1
         | Some participantSide \<Rightarrow>
             if trim finalTranscript \<noteq> [] \<and> p_isAnchor p then
               s1\<lparr>finalTranscriptRef := finalTranscriptRef s1 @ finalTranscript,
                  inserts := inserts s1 @
                    [\<lparr>i_room_id = p_roomId p, i_user_id = p_userId p,
                      i_participant_side = participantSide,
                      i_content = trim finalTranscript,
                      i_confidence = or_default (first_confidence event),
                      i_is_final = True\<rparr>]\<rparr>
             else s1)"

subsection \<open>Timer callbacks\<close>

text \<open>
  The callback of a timer that fires. \<open>started\<close> says whether
  \<^verbatim>\<open>recognitionRef.current.start()\<close> returns (the host throws when the recognition has
  already started). The callback of the restart timer answers a throw with a retry timer
  of 5000 ms, whose handle it keeps nowhere; the callback of the retry timer only logs.
\<close>

definition timer_callback :: "timer \<Rightarrow> bool \<Rightarrow> session \<Rightarrow> session" where
  "timer_callback t started s =
     (if recognitionRef s \<noteq> None \<and> \<not> t_isListening t then
        if started then s\<lparr>starts := starts s @ [by_timer]\<rparr>
        else (case t_kind t of
                restart_timer \<Rightarrow> snd (setTimeout retry_timer (t_isListening t) 5000 s)
              | retry_timer \<Rightarrow> s)
      else s)"

definition timer_fired :: "nat \<Rightarrow> bool \<Rightarrow> session \<Rightarrow> session" where
  "timer_fired h started s =
     (case find (\<lambda>t. t_handle t = h) (pending s) of
        None \<Rightarrow> s
      | Some t \<Rightarrow> timer_callback t started (clearTimeout h s))"

subsection \<open>The functions the hook returns\<close>

definition startListening :: "props \<Rightarrow> bool \<Rightarrow> session \<Rightarrow> session" where
  "startListening p started s =
     (if \<not> isSupported s \<or> recognitionRef s = None \<or> p_participantSide p = None then
        (if p_participantSide p = None
         then s\<lparr>error := ''Cannot start recording: participant side not determined''\<rparr>
         else s)
      else
        (let s1 = s\<lparr>finalTranscriptRef := [], transcript := [], error := [],
                    autoRestartCount := 0\<rparr>
         in if started then s1\<lparr>starts := starts s1 @ [by_startListening]\<rparr>
            else s1\<lparr>error := ''Failed to start speech recognition''\<rparr>))"

definition stopListening :: "session \<Rightarrow> session" where
  "stopListening s =
     (let s1 = (case autoRestartTimeoutRef s of Some h \<Rightarrow> clearTimeout h s | None \<Rightarrow> s)
      in case recognitionRef s1 of
           Some r \<Rightarrow> if isListening s1 then s1\<lparr>stops := stops s1 @ [r]\<rparr> else s1
         | None \<Rightarrow> s1)"

definition clearTranscript :: "session \<Rightarrow> session" where
  "clearTranscript s = s\<lparr>transcript := [], finalTranscriptRef := []\<rparr>"

subsection \<open>The effect\<close>

text \<open>
  The effect that creates the recognition depends on \<^verbatim>\<open>autoRestartCount\<close>: when the
  count has changed, React runs the clean-up of the previous run and then the body again,
  which creates a new recognition whose handlers close over the state of that moment.
\<close>

definition cleanup :: "session \<Rightarrow> session" where
  "cleanup s =
     (let s1 = (case autoRestartTimeoutRef s of Some h \<Rightarrow> clearTimeout h s | None \<Rightarrow> s)
      in case recognitionRef s1 of
           Some r \<Rightarrow> s1\<lparr>stops := stops s1 @ [r]\<rparr>
         | None \<Rightarrow> s1)"

definition effect_body :: "props \<Rightarrow> session \<Rightarrow> session" where
  "effect_body p s =
     (let s1 = s\<lparr>isSupported := p_hostSupported p\<rparr> in
      if \<not> p_hostSupported p then
        s1\<lparr>error := ''Speech recognition not supported in this browser''\<rparr>
      else
        s1\<lparr>instances := instances s1 @
              [\<lparr>k_autoRestartCount = autoRestartCount s1, k_isListening = isListening s1\<rparr>],
           recognitionRef := Some (length (instances s1))\<rparr>)"

definition run_effect :: "props \<Rightarrow> session \<Rightarrow> session" where
  "run_effect p s = effect_body p (cleanup s)"

subsection \<open>Event histories\<close>

text \<open>
  What can happen to a mounted hook, one event at a time: React runs the effect (at mount,
  and again after the count has changed), the host fires an event of the recognition with
  the given index (an index that names no recognition is no event), a timer fires, or one
  of the returned functions is called. The second effect of the hook, which starts an
  anchor's captions a second after mount, calls \<^verbatim>\<open>startListening\<close>: in a history
  it is the event \<open>StartListening\<close>. The order of the events is the host's and
  React's; a property of all histories holds for every order.
\<close>

datatype event =
    EffectRun
  | Started nat
  | Ended nat
  | Errored nat string
  | Result nat result_event
  | TimerFired nat bool
  | StartListening bool
  | StopListening
  | ClearTranscript

fun step :: "props \<Rightarrow> session \<Rightarrow> event \<Rightarrow> session" where
  "step p s EffectRun = run_effect p s"
| "step p s (Started r) = (if r < length (instances s) then onstart s else s)"
| "step p s (Ended r) = (if r < length (instances s) then onend p (instances s ! r) s else s)"
| "step p s (Errored r code) = (if r < length (instances s) then onerror code s else s)"
| "step p s (Result r e) = (if r < length (instances s) then onresult p e s else s)"
| "step p s (TimerFired h started) = timer_fired h started s"
| "step p s (StartListening started) = startListening p started s"
| "step p s StopListening = stopListening s"
| "step p s ClearTranscript = clearTranscript s"

definition run :: "props \<Rightarrow> event list \<Rightarrow> session \<Rightarrow> session" where
  "run p events s = foldl (step p) s events"



section \<open>Properties of the aggregation\<close>

lemma insert_by_timestamp:
  "insert_by by_timestamp x ys = insort_key e_timestamp x ys"
  by (induction ys) (simp_all add: by_timestamp_def)

lemma array_sort_by_timestamp:
  "array_sort by_timestamp xs = sort_key e_timestamp xs"
  by (induction xs) (simp_all add: array_sort_def insert_by_timestamp)

lemma type_of_message: "e_type (of_message m) = message_kind"
  by (simp add: of_message_def)

lemma type_of_caption: "e_type (of_caption c) = caption_kind"
  by (simp add: of_caption_def)

lemma messages_of_allContent:
  "filter (\<lambda>e. e_type e = message_kind) (allContent messages captions) =
     sort_key e_timestamp (map of_message messages)"
  by (simp add: allContent_def array_sort_by_timestamp filter_sort filter_map o_def
      type_of_message type_of_caption)

lemma captions_of_allContent:
  "filter (\<lambda>e. e_type e = caption_kind) (allContent messages captions) =
     sort_key e_timestamp (map of_caption captions)"
  by (simp add: allContent_def array_sort_by_timestamp filter_sort filter_map o_def
      type_of_message type_of_caption)

text \<open>
  C1. The sequence handed to the synthesizer holds every message and every caption once,
  in ascending order of timestamp, and the sort is stable: at every timestamp \<open>t\<close> the
  entries of the sequence are the messages at \<open>t\<close> in their fetch order, followed by the
  captions at \<open>t\<close> in their fetch order. So a message precedes a caption of the same
  timestamp, and entries of one source with the same timestamp keep their order. When a
  source is fetched in timestamp order, as the queries ask, all its entries keep their
  fetch order.
\<close>

theorem allContent_sorted_stable:
  "sorted (map e_timestamp (allContent messages captions)) \<and>
   mset (allContent messages captions) =
     mset (map of_message messages) + mset (map of_caption captions) \<and>
   (\<forall>t. filter (\<lambda>e. e_timestamp e = t) (allContent messages captions) =
        map of_message (filter (\<lambda>m. m_timestamp m = t) messages) @
        map of_caption (filter (\<lambda>c. c_timestamp c = t) captions)) \<and>
   (sorted (map m_timestamp messages) \<longrightarrow>
      filter (\<lambda>e. e_type e = message_kind) (allContent messages captions) =
        map of_message messages) \<and>
   (sorted (map c_timestamp captions) \<longrightarrow>
      filter (\<lambda>e. e_type e = caption_kind) (allContent messages captions) =
        map of_caption captions)"
proof (intro conjI allI impI)
  show "sorted (map e_timestamp (allContent messages captions))"
    by (simp add: allContent_def array_sort_by_timestamp)
next
  show "mset (allContent messages captions) =
     mset (map of_message messages) + mset (map of_caption captions)"
    by (simp add: allContent_def array_sort_by_timestamp)
next
  fix t
  have "filter (\<lambda>e. e_timestamp e = t) (allContent messages captions) =
        filter (\<lambda>e. e_timestamp e = t) (map of_message messages @ map of_caption captions)"
    by (simp only: allContent_def array_sort_by_timestamp sort_key_stable)
  also have "\<dots> = map of_message (filter (\<lambda>m. m_timestamp m = t) messages) @
                  map of_caption (filter (\<lambda>c. c_timestamp c = t) captions)"
    by (simp add: filter_map o_def of_message_def of_caption_def)
  finally show "filter (\<lambda>e. e_timestamp e = t) (allContent messages captions) =
        map of_message (filter (\<lambda>m. m_timestamp m = t) messages) @
        map of_caption (filter (\<lambda>c. c_timestamp c = t) captions)" .
next
  assume "sorted (map m_timestamp messages)"
  then have "sorted (map e_timestamp (map of_message messages))"
    by (simp add: o_def of_message_def)
  then show "filter (\<lambda>e. e_type e = message_kind) (allContent messages captions) =
        map of_message messages"
    by (simp only: messages_of_allContent sort_key_id_if_sorted)
next
  assume "sorted (map c_timestamp captions)"
  then have "sorted (map e_timestamp (map of_caption captions))"
    by (simp add: o_def of_caption_def)
  then show "filter (\<lambda>e. e_type e = caption_kind) (allContent messages captions) =
        map of_caption captions"
    by (simp only: captions_of_allContent sort_key_id_if_sorted)
qed

theorem allContent_sorted_stable_witness:
  "map e_content (allContent
      [\<lparr>m_content = ''a'', m_side = Some side_a, m_timestamp = 1, m_user_id = None\<rparr>, \<lparr>m_content = ''b'', m_side = Some side_b, m_timestamp = 3, m_user_id = None\<rparr>]
      [\<lparr>c_id = ''1'', c_room_id = ''r'', c_user_id = ''u'', c_participant_side = Some side_a, c_content = ''c'', c_confidence = None, c_timestamp = 2, c_is_final = True\<rparr>]) = [''a'', ''c'', ''b''] \<and>
   filter (\<lambda>e. e_type e = message_kind) (allContent
      [\<lparr>m_content = ''a'', m_side = Some side_a, m_timestamp = 1, m_user_id = None\<rparr>, \<lparr>m_content = ''b'', m_side = Some side_b, m_timestamp = 3, m_user_id = None\<rparr>]
      [\<lparr>c_id = ''1'', c_room_id = ''r'', c_user_id = ''u'', c_participant_side = Some side_a, c_content = ''c'', c_confidence = None, c_timestamp = 2, c_is_final = True\<rparr>]) =
   map of_message
      [\<lparr>m_content = ''a'', m_side = Some side_a, m_timestamp = 1, m_user_id = None\<rparr>, \<lparr>m_content = ''b'', m_side = Some side_b, m_timestamp = 3, m_user_id = None\<rparr>] \<and>
   filter (\<lambda>e. e_type e = caption_kind) (allContent
      [\<lparr>m_content = ''a'', m_side = Some side_a, m_timestamp = 1, m_user_id = None\<rparr>, \<lparr>m_content = ''b'', m_side = Some side_b, m_timestamp = 3, m_user_id = None\<rparr>]
      [\<lparr>c_id = ''1'', c_room_id = ''r'', c_user_id = ''u'', c_participant_side = Some side_a, c_content = ''c'', c_confidence = None, c_timestamp = 2, c_is_final = True\<rparr>]) =
   map of_caption
      [\<lparr>c_id = ''1'', c_room_id = ''r'', c_user_id = ''u'', c_participant_side = Some side_a, c_content = ''c'', c_confidence = None, c_timestamp = 2, c_is_final = True\<rparr>]"
proof -
  have m: "sorted (map m_timestamp
      [\<lparr>m_content = ''a'', m_side = Some side_a, m_timestamp = 1, m_user_id = None\<rparr>, \<lparr>m_content = ''b'', m_side = Some side_b, m_timestamp = 3, m_user_id = None\<rparr>])"
    by simp
  have c: "sorted (map c_timestamp
      [\<lparr>c_id = ''1'', c_room_id = ''r'', c_user_id = ''u'', c_participant_side = Some side_a, c_content = ''c'', c_confidence = None, c_timestamp = 2, c_is_final = True\<rparr>])"
    by simp
  have "map e_content (allContent
      [\<lparr>m_content = ''a'', m_side = Some side_a, m_timestamp = 1, m_user_id = None\<rparr>, \<lparr>m_content = ''b'', m_side = Some side_b, m_timestamp = 3, m_user_id = None\<rparr>]
      [\<lparr>c_id = ''1'', c_room_id = ''r'', c_user_id = ''u'', c_participant_side = Some side_a, c_content = ''c'', c_confidence = None, c_timestamp = 2, c_is_final = True\<rparr>]) = [''a'', ''c'', ''b'']"
    by (simp add: allContent_def array_sort_def of_message_def of_caption_def by_timestamp_def)
  with allContent_sorted_stable [where messages = "[\<lparr>m_content = ''a'', m_side = Some side_a, m_timestamp = 1, m_user_id = None\<rparr>, \<lparr>m_content = ''b'', m_side = Some side_b, m_timestamp = 3, m_user_id = None\<rparr>]"
      and captions = "[\<lparr>c_id = ''1'', c_room_id = ''r'', c_user_id = ''u'', c_participant_side = Some side_a, c_content = ''c'', c_confidence = None, c_timestamp = 2, c_is_final = True\<rparr>]"] m c
  show ?thesis by blast
qed

section \<open>Properties of the per-side arguments\<close>

lemma sideContent_allContent:
  "sideContent s (allContent ms cs) =
     sort_key e_timestamp
       (map of_message (filter (\<lambda>m. m_side m = Some s) ms) @
        map of_caption (filter (\<lambda>c. c_participant_side c = Some s) cs))"
  by (simp add: sideContent_def allContent_def array_sort_by_timestamp filter_sort
      filter_map o_def of_message_def of_caption_def)

lemma sideContent_in_fetch_order:
  assumes "sorted (map m_timestamp ms)" and "sorted (map c_timestamp cs)"
    and "\<forall>m\<in>set ms. \<forall>c\<in>set cs. m_side m = Some s \<longrightarrow> c_participant_side c = Some s \<longrightarrow>
           m_timestamp m \<le> c_timestamp c"
  shows "sideContent s (allContent ms cs) =
       map of_message (filter (\<lambda>m. m_side m = Some s) ms) @
       map of_caption (filter (\<lambda>c. c_participant_side c = Some s) cs)"
proof -
  let ?M = "filter (\<lambda>m. m_side m = Some s) ms"
  let ?C = "filter (\<lambda>c. c_participant_side c = Some s) cs"
  have 1: "sorted (map m_timestamp ?M)" using assms(1) by (simp add: sorted_filter)
  have 2: "sorted (map c_timestamp ?C)" using assms(2) by (simp add: sorted_filter)
  have "sorted (map e_timestamp (map of_message ?M @ map of_caption ?C))"
    using 1 2 assms(3)
    by (auto simp add: sorted_append o_def of_message_def of_caption_def)
  then show ?thesis
    by (simp only: sideContent_allContent sort_key_id_if_sorted)
qed

text \<open>
  C8, as stated, fails: a caption of the side spoken before a chat message of the side is
  listed after it. Here the caption is at time 1 and the message at time 2.
\<close>

theorem extractSideArguments_not_chronological:
  "extractSideArguments
     \<lparr>d_topic = ''t'', d_sideALabel = ''For'', d_sideBLabel = ''Against'',
      d_messages = [\<lparr>m_content = ''chat'', m_side = Some side_a, m_timestamp = 2, m_user_id = None\<rparr>],
      d_votes = \<lparr>v_side_a = 0, v_side_b = 0\<rparr>,
      d_captions = [\<lparr>c_id = ''1'', c_room_id = ''r'', c_user_id = ''u'', c_participant_side = Some side_a,
         c_content = ''speech'', c_confidence = Some (9 / 10), c_timestamp = 1, c_is_final = True\<rparr>],
      d_duration = 1, d_participants = 2\<rparr> side_a = [''chat'', ''speech''] \<and>
   chronological_side_arguments
     \<lparr>d_topic = ''t'', d_sideALabel = ''For'', d_sideBLabel = ''Against'',
      d_messages = [\<lparr>m_content = ''chat'', m_side = Some side_a, m_timestamp = 2, m_user_id = None\<rparr>],
      d_votes = \<lparr>v_side_a = 0, v_side_b = 0\<rparr>,
      d_captions = [\<lparr>c_id = ''1'', c_room_id = ''r'', c_user_id = ''u'', c_participant_side = Some side_a,
         c_content = ''speech'', c_confidence = Some (9 / 10), c_timestamp = 1, c_is_final = True\<rparr>],
      d_duration = 1, d_participants = 2\<rparr> side_a = [''speech'', ''chat'']"
  by (simp add: extractSideArguments_def chronological_side_arguments_def sideContent_def
       allContent_def array_sort_def of_message_def of_caption_def by_timestamp_def)

text \<open>
  C8, amended. The list is the first ten of the side's message contents followed by the
  side's caption contents, each in fetch order: messages always come before captions. It
  is the chronological list of the side whenever both fetches are in timestamp order and
  no caption of the side is earlier than a message of the side.
\<close>

theorem extractSideArguments_messages_first:
  "extractSideArguments data s =
     take 10 (map m_content (filter (\<lambda>m. m_side m = Some s) (d_messages data))) @
     take (10 - length (filter (\<lambda>m. m_side m = Some s) (d_messages data)))
       (map c_content (filter (\<lambda>c. c_participant_side c = Some s) (d_captions data))) \<and>
   (sorted (map m_timestamp (d_messages data)) \<and> sorted (map c_timestamp (d_captions data)) \<and>
    (\<forall>m\<in>set (d_messages data). \<forall>c\<in>set (d_captions data).
        m_side m = Some s \<longrightarrow> c_participant_side c = Some s \<longrightarrow> m_timestamp m \<le> c_timestamp c)
    \<longrightarrow> extractSideArguments data s = chronological_side_arguments data s)"
proof (intro conjI impI)
  show "extractSideArguments data s =
     take 10 (map m_content (filter (\<lambda>m. m_side m = Some s) (d_messages data))) @
     take (10 - length (filter (\<lambda>m. m_side m = Some s) (d_messages data)))
       (map c_content (filter (\<lambda>c. c_participant_side c = Some s) (d_captions data)))"
    by (simp add: extractSideArguments_def Let_def)
next
  assume h: "sorted (map m_timestamp (d_messages data)) \<and> sorted (map c_timestamp (d_captions data)) \<and>
    (\<forall>m\<in>set (d_messages data). \<forall>c\<in>set (d_captions data).
        m_side m = Some s \<longrightarrow> c_participant_side c = Some s \<longrightarrow> m_timestamp m \<le> c_timestamp c)"
  then have "sideContent s (allContent (d_messages data) (d_captions data)) =
       map of_message (filter (\<lambda>m. m_side m = Some s) (d_messages data)) @
       map of_caption (filter (\<lambda>c. c_participant_side c = Some s) (d_captions data))"
    by (intro sideContent_in_fetch_order) blast+
  then show "extractSideArguments data s = chronological_side_arguments data s"
    by (simp add: extractSideArguments_def chronological_side_arguments_def Let_def o_def
        of_message_def of_caption_def)
qed

theorem extractSideArguments_messages_first_witness:
  "extractSideArguments
     \<lparr>d_topic = ''t'', d_sideALabel = ''For'', d_sideBLabel = ''Against'',
      d_messages = [\<lparr>m_content = ''first'', m_side = Some side_a, m_timestamp = 1, m_user_id = None\<rparr>,
         \<lparr>m_content = ''other'', m_side = Some side_b, m_timestamp = 2, m_user_id = None\<rparr>],
      d_votes = \<lparr>v_side_a = 0, v_side_b = 0\<rparr>,
      d_captions = [\<lparr>c_id = ''1'', c_room_id = ''r'', c_user_id = ''u'', c_participant_side = Some side_a,
         c_content = ''second'', c_confidence = Some (9 / 10), c_timestamp = 3, c_is_final = True\<rparr>],
      d_duration = 1, d_participants = 2\<rparr> side_a =
   chronological_side_arguments
     \<lparr>d_topic = ''t'', d_sideALabel = ''For'', d_sideBLabel = ''Against'',
      d_messages = [\<lparr>m_content = ''first'', m_side = Some side_a, m_timestamp = 1, m_user_id = None\<rparr>,
         \<lparr>m_content = ''other'', m_side = Some side_b, m_timestamp = 2, m_user_id = None\<rparr>],
      d_votes = \<lparr>v_side_a = 0, v_side_b = 0\<rparr>,
      d_captions = [\<lparr>c_id = ''1'', c_room_id = ''r'', c_user_id = ''u'', c_participant_side = Some side_a,
         c_content = ''second'', c_confidence = Some (9 / 10), c_timestamp = 3, c_is_final = True\<rparr>],
      d_duration = 1, d_participants = 2\<rparr> side_a \<and>
   extractSideArguments
     \<lparr>d_topic = ''t'', d_sideALabel = ''For'', d_sideBLabel = ''Against'',
      d_messages = [\<lparr>m_content = ''first'', m_side = Some side_a, m_timestamp = 1, m_user_id = None\<rparr>,
         \<lparr>m_content = ''other'', m_side = Some side_b, m_timestamp = 2, m_user_id = None\<rparr>],
      d_votes = \<lparr>v_side_a = 0, v_side_b = 0\<rparr>,
      d_captions = [\<lparr>c_id = ''1'', c_room_id = ''r'', c_user_id = ''u'', c_participant_side = Some side_a,
         c_content = ''second'', c_confidence = Some (9 / 10), c_timestamp = 3, c_is_final = True\<rparr>],
      d_duration = 1, d_participants = 2\<rparr> side_a = [''first'', ''second'']"
  (is "?e = ?c \<and> ?e = ?v")
proof -
  have "?e = ?c"
    by (rule extractSideArguments_messages_first [THEN conjunct2, THEN mp]) simp
  moreover have "?e = ?v"
    by (simp add: extractSideArguments_def)
  ultimately show ?thesis by blast
qed

section \<open>Properties of the caption stream reader\<close>

lemma set_foldl_on_insert: "set (foldl on_insert xs ys) = set xs \<union> set ys"
  by (induction ys arbitrary: xs) (auto simp: on_insert_def)

text \<open>
  C10. The bulk fetch returns only final captions of the room; the subscription appends
  every inserted row of the room, final or not. So the view holds only final captions
  exactly when every row inserted for the room is final.
\<close>

theorem useCaptions_final_iff:
  "(\<forall>c\<in>set (fetchCaptions table roomId). c_is_final c \<and> c_room_id c = roomId) \<and>
   set (useCaptions table roomId inserted) =
     set (fetchCaptions table roomId) \<union> {c \<in> set inserted. c_room_id c = roomId} \<and>
   ((\<forall>c\<in>set (useCaptions table roomId inserted). c_is_final c) \<longleftrightarrow>
    (\<forall>c\<in>set inserted. c_room_id c = roomId \<longrightarrow> c_is_final c))"
  by (auto simp: useCaptions_def set_foldl_on_insert fetchCaptions_def delivered_def)

theorem useCaptions_final_iff_witness:
  "\<not> (\<forall>c\<in>set
     [\<lparr>c_id = ''3'', c_room_id = ''r'', c_user_id = ''u'', c_participant_side = Some side_b,
       c_content = ''interim'', c_confidence = None, c_timestamp = 3, c_is_final = False\<rparr>].
       c_room_id c = ''r'' \<longrightarrow> c_is_final c) \<and>
   \<not> (\<forall>c\<in>set (useCaptions
     [\<lparr>c_id = ''1'', c_room_id = ''r'', c_user_id = ''u'', c_participant_side = Some side_a,
       c_content = ''stored'', c_confidence = Some (9 / 10), c_timestamp = 1, c_is_final = True\<rparr>,
      \<lparr>c_id = ''2'', c_room_id = ''r'', c_user_id = ''u'', c_participant_side = Some side_a,
       c_content = ''draft'', c_confidence = Some (9 / 10), c_timestamp = 2, c_is_final = False\<rparr>]
     ''r''
     [\<lparr>c_id = ''3'', c_room_id = ''r'', c_user_id = ''u'', c_participant_side = Some side_b,
       c_content = ''interim'', c_confidence = None, c_timestamp = 3, c_is_final = False\<rparr>]). c_is_final c)"
proof -
  have "\<not> (\<forall>c\<in>set
     [\<lparr>c_id = ''3'', c_room_id = ''r'', c_user_id = ''u'', c_participant_side = Some side_b,
       c_content = ''interim'', c_confidence = None, c_timestamp = 3, c_is_final = False\<rparr>].
       c_room_id c = ''r'' \<longrightarrow> c_is_final c)"
    by simp
  then show ?thesis
    using useCaptions_final_iff
      [of "[\<lparr>c_id = ''1'', c_room_id = ''r'', c_user_id = ''u'', c_participant_side = Some side_a,
       c_content = ''stored'', c_confidence = Some (9 / 10), c_timestamp = 1, c_is_final = True\<rparr>,
      \<lparr>c_id = ''2'', c_room_id = ''r'', c_user_id = ''u'', c_participant_side = Some side_a,
       c_content = ''draft'', c_confidence = Some (9 / 10), c_timestamp = 2, c_is_final = False\<rparr>]"
        "''r''"
        "[\<lparr>c_id = ''3'', c_room_id = ''r'', c_user_id = ''u'', c_participant_side = Some side_b,
       c_content = ''interim'', c_confidence = None, c_timestamp = 3, c_is_final = False\<rparr>]"]
    by blast
qed

section \<open>Properties of the summary synthesis\<close>

lemma fallbackSummary_not_empty:
  "fallbackSummary toFixed1 topic messages votes captions sideALabel sideBLabel err \<noteq> []"
  by (simp add: fallbackSummary_def Let_def)

lemma try_generate_fails:
  assumes "\<forall>text. answer = Ok (Some text) \<longrightarrow> text = []"
  shows "\<exists>err. try_generate answer = Inl err"
proof (cases answer)
  case (Ok generatedText)
  with assms show ?thesis by (cases generatedText) auto
qed simp_all

lemma pieces_prefix: "x = concat (take n xss) \<Longrightarrow> prefix x (concat xss)"
proof -
  assume "x = concat (take n xss)"
  moreover have "concat xss = concat (take n xss) @ concat (drop n xss)"
    by (simp flip: concat_append)
  ultimately show ?thesis by (simp add: prefix_def)
qed

lemma pieces_suffix: "x = concat (drop n xss) \<Longrightarrow> suffix x (concat xss)"
proof -
  assume "x = concat (drop n xss)"
  moreover have "concat xss = concat (take n xss) @ concat (drop n xss)"
    by (simp flip: concat_append)
  ultimately show ?thesis by (simp add: suffix_def)
qed

lemma pieces_sublist: "x = concat (take n (drop i xss)) \<Longrightarrow> sublist x (concat xss)"
proof -
  assume "x = concat (take n (drop i xss))"
  moreover have "take i xss @ take n (drop i xss) @ drop n (drop i xss) = xss"
    by (simp only: append_take_drop_id)
  then have "concat xss =
      concat (take i xss) @ concat (take n (drop i xss)) @ concat (drop n (drop i xss))"
    by (metis concat_append)
  ultimately show ?thesis by (auto simp: sublist_def)
qed

lemma join_not_empty:
  assumes "xs \<noteq> []" and "\<forall>x\<in>set xs. x \<noteq> []"
  shows "join sep xs \<noteq> []"
  using assms by (induction sep xs rule: join.induct) simp_all

lemma top_contributions_eq:
  "top_contributions items =
     (if items = [] then ''- No arguments recorded''
      else join ''\<newline>'' (map (\<lambda>item. ''- '' @ e_content item) (take 5 items)))"
proof (cases "items = []")
  case True
  then show ?thesis by (simp add: top_contributions_def)
next
  case False
  then have "join ''\<newline>'' (map (\<lambda>item. ''- '' @ e_content item) (take 5 items)) \<noteq> []"
    by (intro join_not_empty) auto
  with False show ?thesis by (simp add: top_contributions_def Let_def)
qed

text \<open>
  C7, as stated, fails. The function asks the service only when the API key is set.
  Without the key it throws before any request, whatever the input and whatever the
  service would have answered: no content is returned, the fallback template is not
  reached.
\<close>

theorem no_key_no_fallback:
  "generateDebateSummary None (\<lambda>a t. ''100.0'') (Thrown (Some ''Failed to fetch''))
      ''Tea or coffee''
      [\<lparr>m_content = ''Tea is calming'', m_side = Some side_a, m_timestamp = 1, m_user_id = None\<rparr>]
      \<lparr>v_side_a = 1, v_side_b = 0\<rparr> [] ''For'' ''Against'' =
   Inl ''Gemini API key not configured. Please add VITE_GEMINI_API_KEY to your environment variables.''"
  by (simp add: generateDebateSummary_def)

text \<open>
  C7, amended. With the API key set, whenever the request fails (the host throws, the
  response is not ok, or the response holds no text or the empty text), the function returns
  the fallback template filled from the same arguments and the message of the failure;
  without the key it throws. The template is never empty. It begins with the title and
  the executive summary (topic, numbers of messages, captions and voters, votes and
  percentage of each side), holds the key arguments (for each side its label, the number
  of its contributions and the first five of them in the order of \<open>allContent\<close>, or
  the line that none was recorded), the voting results and the timeline counts, and ends
  with the conclusion and the note that carries the message of the failure. It is a
  function of the arguments and the failure: equal runs return equal content.
\<close>

theorem fallback_on_failure:
  \<open>(key \<noteq> [] \<and> (\<forall>text. answer = Ok (Some text) \<longrightarrow> text = []) \<longrightarrow>
      (\<exists>err. try_generate answer = Inl err \<and>
         generateDebateSummary (Some key) toFixed1 answer topic messages votes captions
             sideALabel sideBLabel =
           Inr (fallbackSummary toFixed1 topic messages votes captions
                  sideALabel sideBLabel err))) \<and>
   generateDebateSummary None toFixed1 answer topic messages votes captions sideALabel sideBLabel =
     Inl ''Gemini API key not configured. Please add VITE_GEMINI_API_KEY to your environment variables.'' \<and>
   fallbackSummary toFixed1 topic messages votes captions sideALabel sideBLabel err \<noteq> [] \<and>
   prefix
     (''# Debate Summary: '' @
      topic @
      ''\<newline>'' @
      ''\<newline>'' @
      ''## Executive Summary\<newline>'' @
      ''This debate on "'' @
      topic @
      ''" generated '' @
      decimal (length messages) @
      '' chat messages and '' @
      decimal (length captions) @
      '' speech contributions, with '' @
      decimal (v_side_a votes + v_side_b votes) @
      '' participants casting votes. The discussion concluded with '' @
      sideALabel @
      '' receiving '' @
      decimal (v_side_a votes) @
      '' votes ('' @
      (if v_side_a votes + v_side_b votes > 0 then toFixed1 (v_side_a votes) (v_side_a votes + v_side_b votes) else ''0'') @
      ''%) and '' @
      sideBLabel @
      '' receiving '' @
      decimal (v_side_b votes) @
      '' votes ('' @
      (if v_side_a votes + v_side_b votes > 0 then toFixed1 (v_side_b votes) (v_side_a votes + v_side_b votes) else ''0'') @
      ''%).\<newline>'')
     (fallbackSummary toFixed1 topic messages votes captions sideALabel sideBLabel err) \<and>
   sublist
     (''## Key Arguments\<newline>'' @
      ''\<newline>'' @
      ''### '' @
      sideALabel @
      '' Position ('' @
      decimal (length (sideContent side_a (allContent messages captions))) @
      '' contributions):\<newline>'' @
      top_contributions (sideContent side_a (allContent messages captions)) @
      ''\<newline>'' @
      ''\<newline>'' @
      ''### '' @
      sideBLabel @
      '' Position ('' @
      decimal (length (sideContent side_b (allContent messages captions))) @
      '' contributions):\<newline>'' @
      top_contributions (sideContent side_b (allContent messages captions)))
     (fallbackSummary toFixed1 topic messages votes captions sideALabel sideBLabel err) \<and>
   sublist
     (''## Voting Results\<newline>'' @
      ''- **'' @
      sideALabel @
      '':** '' @
      decimal (v_side_a votes) @
      '' votes ('' @
      (if v_side_a votes + v_side_b votes > 0 then toFixed1 (v_side_a votes) (v_side_a votes + v_side_b votes) else ''0'') @
      ''%)\<newline>'' @
      ''- **'' @
      sideBLabel @
      '':** '' @
      decimal (v_side_b votes) @
      '' votes ('' @
      (if v_side_a votes + v_side_b votes > 0 then toFixed1 (v_side_b votes) (v_side_a votes + v_side_b votes) else ''0'') @
      ''%)\<newline>'')
     (fallbackSummary toFixed1 topic messages votes captions sideALabel sideBLabel err) \<and>
   sublist
     (''## Discussion Timeline\<newline>'' @
      ''The debate included:\<newline>'' @
      ''- '' @
      decimal (length messages) @
      '' text messages from participants\<newline>'' @
      ''- '' @
      decimal (length captions) @
      '' speech-to-text captions from anchors\<newline>'' @
      ''- Real-time voting by '' @
      decimal (v_side_a votes + v_side_b votes) @
      '' participants\<newline>'')
     (fallbackSummary toFixed1 topic messages votes captions sideALabel sideBLabel err) \<and>
   suffix
     (''## Conclusion\<newline>'' @
      ''This debate provided valuable insights into different perspectives on '' @
      topic @
      ''. The voting results reflect the audience'' @
      [CHR 0x27] @
      ''s response to the arguments presented by both sides.\<newline>'' @
      ''\<newline>'' @
      ''*Note: This is a basic summary. AI-powered analysis is temporarily unavailable due to: '' @
      error_message err @
      ''*'')
     (fallbackSummary toFixed1 topic messages votes captions sideALabel sideBLabel err) \<and>
   top_contributions items =
     (if items = [] then ''- No arguments recorded''
      else join ''\<newline>'' (map (\<lambda>item. ''- '' @ e_content item) (take 5 items)))\<close>
proof (intro conjI impI)
  assume a: "key \<noteq> [] \<and> (\<forall>text. answer = Ok (Some text) \<longrightarrow> text = [])"
  then obtain err where e: "try_generate answer = Inl err"
    using try_generate_fails by blast
  with a have "generateDebateSummary (Some key) toFixed1 answer topic messages votes captions
         sideALabel sideBLabel =
       Inr (fallbackSummary toFixed1 topic messages votes captions sideALabel sideBLabel err)"
    by (simp add: generateDebateSummary_def)
  with e show "\<exists>err. try_generate answer = Inl err \<and>
         generateDebateSummary (Some key) toFixed1 answer topic messages votes captions
             sideALabel sideBLabel =
           Inr (fallbackSummary toFixed1 topic messages votes captions
                  sideALabel sideBLabel err)"
    by blast
next
  show "generateDebateSummary None toFixed1 answer topic messages votes captions sideALabel sideBLabel =
     Inl ''Gemini API key not configured. Please add VITE_GEMINI_API_KEY to your environment variables.''"
    by (simp add: generateDebateSummary_def)
next
  show "fallbackSummary toFixed1 topic messages votes captions sideALabel sideBLabel err \<noteq> []"
    by (rule fallbackSummary_not_empty)
next
  show \<open>prefix
     (''# Debate Summary: '' @
      topic @
      ''\<newline>'' @
      ''\<newline>'' @
      ''## Executive Summary\<newline>'' @
      ''This debate on "'' @
      topic @
      ''" generated '' @
      decimal (length messages) @
      '' chat messages and '' @
      decimal (length captions) @
      '' speech contributions, with '' @
      decimal (v_side_a votes + v_side_b votes) @
      '' participants casting votes. The discussion concluded with '' @
      sideALabel @
      '' receiving '' @
      decimal (v_side_a votes) @
      '' votes ('' @
      (if v_side_a votes + v_side_b votes > 0 then toFixed1 (v_side_a votes) (v_side_a votes + v_side_b votes) else ''0'') @
      ''%) and '' @
      sideBLabel @
      '' receiving '' @
      decimal (v_side_b votes) @
      '' votes ('' @
      (if v_side_a votes + v_side_b votes > 0 then toFixed1 (v_side_b votes) (v_side_a votes + v_side_b votes) else ''0'') @
      ''%).\<newline>'')
     (fallbackSummary toFixed1 topic messages votes captions sideALabel sideBLabel err)\<close>
    unfolding fallbackSummary_def Let_def
    by (rule pieces_prefix [where n = 26]) simp
next
  show \<open>sublist
     (''## Key Arguments\<newline>'' @
      ''\<newline>'' @
      ''### '' @
      sideALabel @
      '' Position ('' @
      decimal (length (sideContent side_a (allContent messages captions))) @
      '' contributions):\<newline>'' @
      top_contributions (sideContent side_a (allContent messages captions)) @
      ''\<newline>'' @
      ''\<newline>'' @
      ''### '' @
      sideBLabel @
      '' Position ('' @
      decimal (length (sideContent side_b (allContent messages captions))) @
      '' contributions):\<newline>'' @
      top_contributions (sideContent side_b (allContent messages captions)))
     (fallbackSummary toFixed1 topic messages votes captions sideALabel sideBLabel err)\<close>
    unfolding fallbackSummary_def Let_def
    by (rule pieces_sublist [where i = 34 and n = 16]) simp
next
  show \<open>sublist
     (''## Voting Results\<newline>'' @
      ''- **'' @
      sideALabel @
      '':** '' @
      decimal (v_side_a votes) @
      '' votes ('' @
      (if v_side_a votes + v_side_b votes > 0 then toFixed1 (v_side_a votes) (v_side_a votes + v_side_b votes) else ''0'') @
      ''%)\<newline>'' @
      ''- **'' @
      sideBLabel @
      '':** '' @
      decimal (v_side_b votes) @
      '' votes ('' @
      (if v_side_a votes + v_side_b votes > 0 then toFixed1 (v_side_b votes) (v_side_a votes + v_side_b votes) else ''0'') @
      ''%)\<newline>'')
     (fallbackSummary toFixed1 topic messages votes captions sideALabel sideBLabel err)\<close>
    unfolding fallbackSummary_def Let_def
    by (rule pieces_sublist [where i = 52 and n = 15]) simp
next
  show \<open>sublist
     (''## Discussion Timeline\<newline>'' @
      ''The debate included:\<newline>'' @
      ''- '' @
      decimal (length messages) @
      '' text messages from participants\<newline>'' @
      ''- '' @
      decimal (length captions) @
      '' speech-to-text captions from anchors\<newline>'' @
      ''- Real-time voting by '' @
      decimal (v_side_a votes + v_side_b votes) @
      '' participants\<newline>'')
     (fallbackSummary toFixed1 topic messages votes captions sideALabel sideBLabel err)\<close>
    unfolding fallbackSummary_def Let_def
    by (rule pieces_sublist [where i = 68 and n = 11]) simp
next
  show \<open>suffix
     (''## Conclusion\<newline>'' @
      ''This debate provided valuable insights into different perspectives on '' @
      topic @
      ''. The voting results reflect the audience'' @
      [CHR 0x27] @
      ''s response to the arguments presented by both sides.\<newline>'' @
      ''\<newline>'' @
      ''*Note: This is a basic summary. AI-powered analysis is temporarily unavailable due to: '' @
      error_message err @
      ''*'')
     (fallbackSummary toFixed1 topic messages votes captions sideALabel sideBLabel err)\<close>
    unfolding fallbackSummary_def Let_def
    by (rule pieces_suffix [where n = 80]) simp
next
  show "top_contributions items =
     (if items = [] then ''- No arguments recorded''
      else join ''\<newline>'' (map (\<lambda>item. ''- '' @ e_content item) (take 5 items)))"
    by (rule top_contributions_eq)
qed

theorem fallback_on_failure_witness:
  \<open>generateDebateSummary (Some ''k'')
      (\<lambda>a t. if a = 3 then ''75.0'' else ''25.0'')
      (Thrown (Some ''Failed to fetch''))
      ''Tea or coffee''
      [\<lparr>m_content = ''Tea is calming'', m_side = Some side_a, m_timestamp = 1, m_user_id = None\<rparr>,
       \<lparr>m_content = ''Coffee is stronger'', m_side = Some side_b, m_timestamp = 2, m_user_id = None\<rparr>,
       \<lparr>m_content = ''Tea has variety'', m_side = Some side_a, m_timestamp = 3, m_user_id = None\<rparr>]
      \<lparr>v_side_a = 3, v_side_b = 1\<rparr>
      [\<lparr>c_id = ''1'', c_room_id = ''r'', c_user_id = ''u'', c_participant_side = Some side_a,
         c_content = ''Tea suits everyone'', c_confidence = Some (19 / 20), c_timestamp = 4, c_is_final = True\<rparr>,
       \<lparr>c_id = ''2'', c_room_id = ''r'', c_user_id = ''v'', c_participant_side = Some side_b,
         c_content = ''Coffee wakes you up'', c_confidence = Some (3 / 5), c_timestamp = 5, c_is_final = True\<rparr>]
      ''For'' ''Against'' =
   Inr
     (''# Debate Summary: Tea or coffee\<newline>'' @
      ''\<newline>'' @
      ''## Executive Summary\<newline>'' @
      ''This debate on "Tea or coffee" generated 3 chat messages and 2 speech contributions, with 4 participants casting votes. The discussion concluded with For receiving 3 votes (75.0%) and Against receiving 1 votes (25.0%).\<newline>'' @
      ''\<newline>'' @
      ''## Debate Overview\<newline>'' @
      ''The debate featured structured discussion between For and Against positions, with participants contributing through both text chat and live speech. The format allowed for real-time audience engagement and voting.\<newline>'' @
      ''\<newline>'' @
      ''## Key Arguments\<newline>'' @
      ''\<newline>'' @
      ''### For Position (3 contributions):\<newline>'' @
      ''- Tea is calming\<newline>'' @
      ''- Tea has variety\<newline>'' @
      ''- Tea suits everyone\<newline>'' @
      ''\<newline>'' @
      ''### Against Position (2 contributions):\<newline>'' @
      ''- Coffee is stronger\<newline>'' @
      ''- Coffee wakes you up\<newline>'' @
      ''\<newline>'' @
      ''## Voting Results\<newline>'' @
      ''- **For:** 3 votes (75.0%)\<newline>'' @
      ''- **Against:** 1 votes (25.0%)\<newline>'' @
      ''\<newline>'' @
      ''## Discussion Timeline\<newline>'' @
      ''The debate included:\<newline>'' @
      ''- 3 text messages from participants\<newline>'' @
      ''- 2 speech-to-text captions from anchors\<newline>'' @
      ''- Real-time voting by 4 participants\<newline>'' @
      ''\<newline>'' @
      ''## Conclusion\<newline>'' @
      ''This debate provided valuable insights into different perspectives on Tea or coffee. The voting results reflect the audience'' @
      [CHR 0x27] @
      ''s response to the arguments presented by both sides.\<newline>'' @
      ''\<newline>'' @
      ''*Note: This is a basic summary. AI-powered analysis is temporarily unavailable due to: Failed to fetch*'')\<close>
proof -
  have h: "''k'' \<noteq> [] \<and> (\<forall>text. Thrown (Some ''Failed to fetch'') = Ok (Some text) \<longrightarrow> text = [])"
    by simp
  from fallback_on_failure [THEN conjunct1, rule_format, OF h]
  obtain err where e: "try_generate (Thrown (Some ''Failed to fetch'')) = Inl err"
    and g: "generateDebateSummary (Some ''k'')
      (\<lambda>a t. if a = 3 then ''75.0'' else ''25.0'')
      (Thrown (Some ''Failed to fetch''))
      ''Tea or coffee''
      [\<lparr>m_content = ''Tea is calming'', m_side = Some side_a, m_timestamp = 1, m_user_id = None\<rparr>,
       \<lparr>m_content = ''Coffee is stronger'', m_side = Some side_b, m_timestamp = 2, m_user_id = None\<rparr>,
       \<lparr>m_content = ''Tea has variety'', m_side = Some side_a, m_timestamp = 3, m_user_id = None\<rparr>]
      \<lparr>v_side_a = 3, v_side_b = 1\<rparr>
      [\<lparr>c_id = ''1'', c_room_id = ''r'', c_user_id = ''u'', c_participant_side = Some side_a,
         c_content = ''Tea suits everyone'', c_confidence = Some (19 / 20), c_timestamp = 4, c_is_final = True\<rparr>,
       \<lparr>c_id = ''2'', c_room_id = ''r'', c_user_id = ''v'', c_participant_side = Some side_b,
         c_content = ''Coffee wakes you up'', c_confidence = Some (3 / 5), c_timestamp = 5, c_is_final = True\<rparr>]
      ''For'' ''Against'' =
      Inr (fallbackSummary
      (\<lambda>a t. if a = 3 then ''75.0'' else ''25.0'')
      ''Tea or coffee''
      [\<lparr>m_content = ''Tea is calming'', m_side = Some side_a, m_timestamp = 1, m_user_id = None\<rparr>,
       \<lparr>m_content = ''Coffee is stronger'', m_side = Some side_b, m_timestamp = 2, m_user_id = None\<rparr>,
       \<lparr>m_content = ''Tea has variety'', m_side = Some side_a, m_timestamp = 3, m_user_id = None\<rparr>]
      \<lparr>v_side_a = 3, v_side_b = 1\<rparr>
      [\<lparr>c_id = ''1'', c_room_id = ''r'', c_user_id = ''u'', c_participant_side = Some side_a,
         c_content = ''Tea suits everyone'', c_confidence = Some (19 / 20), c_timestamp = 4, c_is_final = True\<rparr>,
       \<lparr>c_id = ''2'', c_room_id = ''r'', c_user_id = ''v'', c_participant_side = Some side_b,
         c_content = ''Coffee wakes you up'', c_confidence = Some (3 / 5), c_timestamp = 5, c_is_final = True\<rparr>]
      ''For'' ''Against'' err)"
    by blast
  from e have err: "err = Some ''Failed to fetch''" by simp
  have \<open>fallbackSummary
      (\<lambda>a t. if a = 3 then ''75.0'' else ''25.0'')
      ''Tea or coffee''
      [\<lparr>m_content = ''Tea is calming'', m_side = Some side_a, m_timestamp = 1, m_user_id = None\<rparr>,
       \<lparr>m_content = ''Coffee is stronger'', m_side = Some side_b, m_timestamp = 2, m_user_id = None\<rparr>,
       \<lparr>m_content = ''Tea has variety'', m_side = Some side_a, m_timestamp = 3, m_user_id = None\<rparr>]
      \<lparr>v_side_a = 3, v_side_b = 1\<rparr>
      [\<lparr>c_id = ''1'', c_room_id = ''r'', c_user_id = ''u'', c_participant_side = Some side_a,
         c_content = ''Tea suits everyone'', c_confidence = Some (19 / 20), c_timestamp = 4, c_is_final = True\<rparr>,
       \<lparr>c_id = ''2'', c_room_id = ''r'', c_user_id = ''v'', c_participant_side = Some side_b,
         c_content = ''Coffee wakes you up'', c_confidence = Some (3 / 5), c_timestamp = 5, c_is_final = True\<rparr>]
      ''For'' ''Against'' (Some ''Failed to fetch'') =
     ''# Debate Summary: Tea or coffee\<newline>'' @
      ''\<newline>'' @
      ''## Executive Summary\<newline>'' @
      ''This debate on "Tea or coffee" generated 3 chat messages and 2 speech contributions, with 4 participants casting votes. The discussion concluded with For receiving 3 votes (75.0%) and Against receiving 1 votes (25.0%).\<newline>'' @
      ''\<newline>'' @
      ''## Debate Overview\<newline>'' @
      ''The debate featured structured discussion between For and Against positions, with participants contributing through both text chat and live speech. The format allowed for real-time audience engagement and voting.\<newline>'' @
      ''\<newline>'' @
      ''## Key Arguments\<newline>'' @
      ''\<newline>'' @
      ''### For Position (3 contributions):\<newline>'' @
      ''- Tea is calming\<newline>'' @
      ''- Tea has variety\<newline>'' @
      ''- Tea suits everyone\<newline>'' @
      ''\<newline>'' @
      ''### Against Position (2 contributions):\<newline>'' @
      ''- Coffee is stronger\<newline>'' @
      ''- Coffee wakes you up\<newline>'' @
      ''\<newline>'' @
      ''## Voting Results\<newline>'' @
      ''- **For:** 3 votes (75.0%)\<newline>'' @
      ''- **Against:** 1 votes (25.0%)\<newline>'' @
      ''\<newline>'' @
      ''## Discussion Timeline\<newline>'' @
      ''The debate included:\<newline>'' @
      ''- 3 text messages from participants\<newline>'' @
      ''- 2 speech-to-text captions from anchors\<newline>'' @
      ''- Real-time voting by 4 participants\<newline>'' @
      ''\<newline>'' @
      ''## Conclusion\<newline>'' @
      ''This debate provided valuable insights into different perspectives on Tea or coffee. The voting results reflect the audience'' @
      [CHR 0x27] @
      ''s response to the arguments presented by both sides.\<newline>'' @
      ''\<newline>'' @
      ''*Note: This is a basic summary. AI-powered analysis is temporarily unavailable due to: Failed to fetch*''\<close>
    by (simp add: fallbackSummary_def Let_def sideContent_def allContent_def array_sort_def
        of_message_def of_caption_def by_timestamp_def top_contributions_def error_message_def)
  with g err show ?thesis by simp
qed

section \<open>Properties of the recognition session\<close>

subsection \<open>What reaches the store\<close>

lemma scan_results_eq:
  "scan_results rs (i, f) =
     (i @ concat (map r_transcript (filter (\<lambda>r. \<not> r_isFinal r) rs)),
      f @ concat (map r_transcript (filter r_isFinal rs)))"
  by (induction rs arbitrary: i f) simp_all

lemma inserts_onstart: "inserts (onstart s) = inserts s"
  by (simp add: onstart_def)

lemma inserts_onend: "inserts (onend p k s) = inserts s"
  by (simp add: onend_def setTimeout_def Let_def)

lemma inserts_onerror: "inserts (onerror code s) = inserts s"
  by (simp add: onerror_def Let_def)

lemma inserts_clearTimeout: "inserts (clearTimeout h s) = inserts s"
  by (simp add: clearTimeout_def)

lemma inserts_timer_fired: "inserts (timer_fired h started s) = inserts s"
  by (simp add: timer_fired_def timer_callback_def setTimeout_def inserts_clearTimeout
      split: option.splits timer_kind.splits)

lemma inserts_startListening: "inserts (startListening p started s) = inserts s"
  by (simp add: startListening_def Let_def)

lemma inserts_stopListening: "inserts (stopListening s) = inserts s"
  by (simp add: stopListening_def Let_def inserts_clearTimeout split: option.splits)

lemma inserts_clearTranscript: "inserts (clearTranscript s) = inserts s"
  by (simp add: clearTranscript_def)

lemma inserts_run_effect: "inserts (run_effect p s) = inserts s"
  by (simp add: run_effect_def effect_body_def cleanup_def Let_def inserts_clearTimeout
      split: option.splits)

lemmas inserts_unchanged =
  inserts_onstart inserts_onend inserts_onerror inserts_timer_fired inserts_startListening
  inserts_stopListening inserts_clearTranscript inserts_run_effect

lemma inserts_onresult:
  "inserts (onresult p e s) = inserts s \<or>
   (\<exists>sd. p_participantSide p = Some sd \<and> p_isAnchor p \<and>
     inserts (onresult p e s) = inserts s @
       [\<lparr>i_room_id = p_roomId p, i_user_id = p_userId p, i_participant_side = sd,
         i_content = trim (concat (map r_transcript
            (filter r_isFinal (drop (resultIndex e) (results e))))),
         i_confidence = or_default (first_confidence e), i_is_final = True\<rparr>])"
  by (simp add: onresult_def scan_results_eq Let_def split: option.splits)

lemma inserts_step:
  assumes "c \<in> set (inserts (step p s ev))"
  shows "c \<in> set (inserts s) \<or>
    (\<exists>r e sd. ev = Result r e \<and> 
       c = \<lparr>i_room_id = p_roomId p, i_user_id = p_userId p, i_participant_side = sd,
         i_content = trim (concat (map r_transcript
            (filter r_isFinal (drop (resultIndex e) (results e))))),
         i_confidence = or_default (first_confidence e), i_is_final = True\<rparr>)"
proof (cases ev)
  case (Result r e)
  show ?thesis
  proof (cases "r < length (instances s)")
    case True
    with assms Result have "c \<in> set (inserts (onresult p e s))" by simp
    with inserts_onresult [of p e s] show ?thesis
      by (auto simp: Result)
  next
    case False
    with assms Result show ?thesis by simp
  qed
qed (insert assms, simp_all add: inserts_unchanged split: if_splits)

lemma inserts_run:
  assumes "c \<in> set (inserts (run p events s))"
  shows "c \<in> set (inserts s) \<or>
    (\<exists>r e sd. Result r e \<in> set events \<and>
       c = \<lparr>i_room_id = p_roomId p, i_user_id = p_userId p, i_participant_side = sd,
         i_content = trim (concat (map r_transcript
            (filter r_isFinal (drop (resultIndex e) (results e))))),
         i_confidence = or_default (first_confidence e), i_is_final = True\<rparr>)"
  using assms
proof (induction events arbitrary: s)
  case Nil
  then show ?case by (simp add: run_def)
next
  case (Cons ev events)
  from Cons.prems have "c \<in> set (inserts (run p events (step p s ev)))"
    by (simp add: run_def)
  from Cons.IH [OF this] inserts_step [of c p s ev] show ?case
    by auto
qed

lemma inserts_initial:
  assumes "c \<in> set (inserts (run p events initial))"
  shows "\<exists>r e sd. Result r e \<in> set events \<and>
       c = \<lparr>i_room_id = p_roomId p, i_user_id = p_userId p, i_participant_side = sd,
         i_content = trim (concat (map r_transcript
            (filter r_isFinal (drop (resultIndex e) (results e))))),
         i_confidence = or_default (first_confidence e), i_is_final = True\<rparr>"
  using inserts_run [OF assms] by (simp add: initial_def)

lemma or_default_range:
  assumes "\<And>c. x = Some c \<Longrightarrow> 0 \<le> c \<and> c \<le> 1"
  shows "0 < or_default x \<and> or_default x \<le> 1"
proof (cases x)
  case None
  then show ?thesis by (simp add: or_default_def)
next
  case (Some c)
  with assms [of c] show ?thesis by (simp add: or_default_def)
qed

lemma first_confidence_in_results:
  "first_confidence e = Some c \<Longrightarrow> \<exists>x\<in>set (results e). r_confidence x = Some c"
  by (auto simp: first_confidence_def split: if_splits)

lemmas session_eval =
  run_def run_effect_def effect_body_def cleanup_def initial_def onstart_def onend_def
  onerror_def onresult_def restart_enabled_def setTimeout_def clearTimeout_def
  timer_fired_def timer_callback_def startListening_def stopListening_def
  clearTranscript_def trim_def is_space_def or_default_def first_confidence_def Let_def

text \<open>
  C2. In every event history of a hook, every row sent to the store has
  \<^verbatim>\<open>is_final = true\<close> and its content is the trimmed concatenation of the transcripts
  of the results marked final of one result event, from its result index on. The text of
  the results not marked final goes to the \<^verbatim>\<open>transcript\<close> state only, after the
  final text.
\<close>

theorem only_final_text_persisted:
  "(\<forall>c\<in>set (inserts (run p events initial)).
      i_is_final c \<and>
      (\<exists>r e. Result r e \<in> set events \<and>
         i_content c = trim (concat (map r_transcript
            (filter r_isFinal (drop (resultIndex e) (results e))))))) \<and>
   transcript (onresult p e s) =
     finalTranscriptRef s @
     concat (map r_transcript (filter r_isFinal (drop (resultIndex e) (results e)))) @
     concat (map r_transcript (filter (\<lambda>r. \<not> r_isFinal r) (drop (resultIndex e) (results e))))"
proof
  show "\<forall>c\<in>set (inserts (run p events initial)).
      i_is_final c \<and>
      (\<exists>r e. Result r e \<in> set events \<and>
         i_content c = trim (concat (map r_transcript
            (filter r_isFinal (drop (resultIndex e) (results e))))))"
    using inserts_initial [of _ p events] by fastforce
next
  show "transcript (onresult p e s) =
     finalTranscriptRef s @
     concat (map r_transcript (filter r_isFinal (drop (resultIndex e) (results e)))) @
     concat (map r_transcript (filter (\<lambda>r. \<not> r_isFinal r) (drop (resultIndex e) (results e))))"
    by (simp add: onresult_def scan_results_eq Let_def split: option.splits)
qed

theorem only_final_text_persisted_witness:
  "inserts (run \<lparr>p_roomId = ''room'', p_userId = ''ann'', p_participantSide = Some side_a, p_isAnchor = True, p_autoStart = True, p_hostSupported = True\<rparr>
      [EffectRun, Result 0 \<lparr>resultIndex = 0, results = [\<lparr>r_transcript = ''hello '', r_confidence = Some (4 / 5), r_isFinal = True\<rparr>, \<lparr>r_transcript = ''wor'', r_confidence = None, r_isFinal = False\<rparr>]\<rparr>] initial) =
     [\<lparr>i_room_id = ''room'', i_user_id = ''ann'', i_participant_side = side_a, i_content = ''hello'', i_confidence = 4 / 5, i_is_final = True\<rparr>] \<and>
   i_is_final (hd (inserts (run \<lparr>p_roomId = ''room'', p_userId = ''ann'', p_participantSide = Some side_a, p_isAnchor = True, p_autoStart = True, p_hostSupported = True\<rparr>
      [EffectRun, Result 0 \<lparr>resultIndex = 0, results = [\<lparr>r_transcript = ''hello '', r_confidence = Some (4 / 5), r_isFinal = True\<rparr>, \<lparr>r_transcript = ''wor'', r_confidence = None, r_isFinal = False\<rparr>]\<rparr>] initial)))"
proof -
  have run: "inserts (run \<lparr>p_roomId = ''room'', p_userId = ''ann'', p_participantSide = Some side_a, p_isAnchor = True, p_autoStart = True, p_hostSupported = True\<rparr>
      [EffectRun, Result 0 \<lparr>resultIndex = 0, results = [\<lparr>r_transcript = ''hello '', r_confidence = Some (4 / 5), r_isFinal = True\<rparr>, \<lparr>r_transcript = ''wor'', r_confidence = None, r_isFinal = False\<rparr>]\<rparr>] initial) =
     [\<lparr>i_room_id = ''room'', i_user_id = ''ann'', i_participant_side = side_a, i_content = ''hello'', i_confidence = 4 / 5, i_is_final = True\<rparr>]"
    by (simp add: session_eval)
  then have "hd (inserts (run \<lparr>p_roomId = ''room'', p_userId = ''ann'', p_participantSide = Some side_a, p_isAnchor = True, p_autoStart = True, p_hostSupported = True\<rparr>
      [EffectRun, Result 0 \<lparr>resultIndex = 0, results = [\<lparr>r_transcript = ''hello '', r_confidence = Some (4 / 5), r_isFinal = True\<rparr>, \<lparr>r_transcript = ''wor'', r_confidence = None, r_isFinal = False\<rparr>]\<rparr>] initial))
    \<in> set (inserts (run \<lparr>p_roomId = ''room'', p_userId = ''ann'', p_participantSide = Some side_a, p_isAnchor = True, p_autoStart = True, p_hostSupported = True\<rparr>
      [EffectRun, Result 0 \<lparr>resultIndex = 0, results = [\<lparr>r_transcript = ''hello '', r_confidence = Some (4 / 5), r_isFinal = True\<rparr>, \<lparr>r_transcript = ''wor'', r_confidence = None, r_isFinal = False\<rparr>]\<rparr>] initial))"
    by simp
  with only_final_text_persisted [THEN conjunct1, of "\<lparr>p_roomId = ''room'', p_userId = ''ann'', p_participantSide = Some side_a, p_isAnchor = True, p_autoStart = True, p_hostSupported = True\<rparr>"
      "[EffectRun, Result 0 \<lparr>resultIndex = 0, results = [\<lparr>r_transcript = ''hello '', r_confidence = Some (4 / 5), r_isFinal = True\<rparr>, \<lparr>r_transcript = ''wor'', r_confidence = None, r_isFinal = False\<rparr>]\<rparr>]"]
  have "i_is_final (hd (inserts (run \<lparr>p_roomId = ''room'', p_userId = ''ann'', p_participantSide = Some side_a, p_isAnchor = True, p_autoStart = True, p_hostSupported = True\<rparr>
      [EffectRun, Result 0 \<lparr>resultIndex = 0, results = [\<lparr>r_transcript = ''hello '', r_confidence = Some (4 / 5), r_isFinal = True\<rparr>, \<lparr>r_transcript = ''wor'', r_confidence = None, r_isFinal = False\<rparr>]\<rparr>] initial)))"
    by blast
  with run show ?thesis by blast
qed

text \<open>
  C9. When the recognizer reports confidences between 0 and 1, every row sent to the
  store has a confidence greater than 0 and at most 1; the row of a result event whose
  first result has no confidence, or the confidence 0, gets 0.9. This is the number the
  handler sends; how the column of the store rounds it is not the handler's doing.
\<close>

theorem persisted_confidence_positive:
  "((\<forall>r e. Result r e \<in> set events \<longrightarrow>
       (\<forall>x\<in>set (results e). \<forall>c. r_confidence x = Some c \<longrightarrow> 0 \<le> c \<and> c \<le> 1)) \<longrightarrow>
    (\<forall>c\<in>set (inserts (run p events initial)). 0 < i_confidence c \<and> i_confidence c \<le> 1)) \<and>
   (\<forall>c. inserts (onresult p e s) = inserts s @ [c] \<and>
        (first_confidence e = None \<or> first_confidence e = Some 0) \<longrightarrow>
        i_confidence c = 9 / 10)"
proof (rule conjI)
  show "(\<forall>r e. Result r e \<in> set events \<longrightarrow>
       (\<forall>x\<in>set (results e). \<forall>c. r_confidence x = Some c \<longrightarrow> 0 \<le> c \<and> c \<le> 1)) \<longrightarrow>
    (\<forall>c\<in>set (inserts (run p events initial)). 0 < i_confidence c \<and> i_confidence c \<le> 1)"
  proof (intro impI ballI)
    fix c
    assume host: "\<forall>r e. Result r e \<in> set events \<longrightarrow>
       (\<forall>x\<in>set (results e). \<forall>c. r_confidence x = Some c \<longrightarrow> 0 \<le> c \<and> c \<le> 1)"
      and c: "c \<in> set (inserts (run p events initial))"
    from inserts_initial [OF c] obtain r e where
      e: "Result r e \<in> set events" and conf: "i_confidence c = or_default (first_confidence e)"
      by auto
    have "0 < or_default (first_confidence e) \<and> or_default (first_confidence e) \<le> 1"
    proof (rule or_default_range)
      fix x assume "first_confidence e = Some x"
      from first_confidence_in_results [OF this] host e show "0 \<le> x \<and> x \<le> 1"
        by blast
    qed
    with conf show "0 < i_confidence c \<and> i_confidence c \<le> 1" by simp
  qed
next
  show "\<forall>c. inserts (onresult p e s) = inserts s @ [c] \<and>
        (first_confidence e = None \<or> first_confidence e = Some 0) \<longrightarrow>
        i_confidence c = 9 / 10"
  proof (intro allI impI)
    fix c
    assume a: "inserts (onresult p e s) = inserts s @ [c] \<and>
        (first_confidence e = None \<or> first_confidence e = Some 0)"
    with inserts_onresult [of p e s] have "i_confidence c = or_default (first_confidence e)"
      by auto
    with a show "i_confidence c = 9 / 10" by (auto simp: or_default_def)
  qed
qed

theorem persisted_confidence_positive_witness:
  "inserts (run \<lparr>p_roomId = ''room'', p_userId = ''ann'', p_participantSide = Some side_a, p_isAnchor = True, p_autoStart = True, p_hostSupported = True\<rparr>
      [EffectRun, Result 0 \<lparr>resultIndex = 0, results = [\<lparr>r_transcript = ''yes'', r_confidence = Some 0, r_isFinal = True\<rparr>]\<rparr>] initial) =
     [\<lparr>i_room_id = ''room'', i_user_id = ''ann'', i_participant_side = side_a, i_content = ''yes'', i_confidence = 9 / 10, i_is_final = True\<rparr>] \<and>
   0 < i_confidence (hd (inserts (run \<lparr>p_roomId = ''room'', p_userId = ''ann'', p_participantSide = Some side_a, p_isAnchor = True, p_autoStart = True, p_hostSupported = True\<rparr>
      [EffectRun, Result 0 \<lparr>resultIndex = 0, results = [\<lparr>r_transcript = ''yes'', r_confidence = Some 0, r_isFinal = True\<rparr>]\<rparr>] initial))) \<and>
   i_confidence (hd (inserts (run \<lparr>p_roomId = ''room'', p_userId = ''ann'', p_participantSide = Some side_a, p_isAnchor = True, p_autoStart = True, p_hostSupported = True\<rparr>
      [EffectRun, Result 0 \<lparr>resultIndex = 0, results = [\<lparr>r_transcript = ''yes'', r_confidence = Some 0, r_isFinal = True\<rparr>]\<rparr>] initial))) \<le> 1"
proof -
  have host: "\<forall>r e. Result r e \<in> set [EffectRun, Result 0 \<lparr>resultIndex = 0, results = [\<lparr>r_transcript = ''yes'', r_confidence = Some 0, r_isFinal = True\<rparr>]\<rparr>] \<longrightarrow>
       (\<forall>x\<in>set (results e). \<forall>c. r_confidence x = Some c \<longrightarrow> 0 \<le> c \<and> c \<le> 1)"
    by simp
  have run: "inserts (run \<lparr>p_roomId = ''room'', p_userId = ''ann'', p_participantSide = Some side_a, p_isAnchor = True, p_autoStart = True, p_hostSupported = True\<rparr>
      [EffectRun, Result 0 \<lparr>resultIndex = 0, results = [\<lparr>r_transcript = ''yes'', r_confidence = Some 0, r_isFinal = True\<rparr>]\<rparr>] initial) =
     [\<lparr>i_room_id = ''room'', i_user_id = ''ann'', i_participant_side = side_a, i_content = ''yes'', i_confidence = 9 / 10, i_is_final = True\<rparr>]"
    by (simp add: session_eval)
  then have "hd (inserts (run \<lparr>p_roomId = ''room'', p_userId = ''ann'', p_participantSide = Some side_a, p_isAnchor = True, p_autoStart = True, p_hostSupported = True\<rparr>
      [EffectRun, Result 0 \<lparr>resultIndex = 0, results = [\<lparr>r_transcript = ''yes'', r_confidence = Some 0, r_isFinal = True\<rparr>]\<rparr>] initial))
    \<in> set (inserts (run \<lparr>p_roomId = ''room'', p_userId = ''ann'', p_participantSide = Some side_a, p_isAnchor = True, p_autoStart = True, p_hostSupported = True\<rparr>
      [EffectRun, Result 0 \<lparr>resultIndex = 0, results = [\<lparr>r_transcript = ''yes'', r_confidence = Some 0, r_isFinal = True\<rparr>]\<rparr>] initial))"
    by simp
  with persisted_confidence_positive [THEN conjunct1, THEN mp, OF host]
  have "0 < i_confidence (hd (inserts (run \<lparr>p_roomId = ''room'', p_userId = ''ann'', p_participantSide = Some side_a, p_isAnchor = True, p_autoStart = True, p_hostSupported = True\<rparr>
      [EffectRun, Result 0 \<lparr>resultIndex = 0, results = [\<lparr>r_transcript = ''yes'', r_confidence = Some 0, r_isFinal = True\<rparr>]\<rparr>] initial))) \<and>
   i_confidence (hd (inserts (run \<lparr>p_roomId = ''room'', p_userId = ''ann'', p_participantSide = Some side_a, p_isAnchor = True, p_autoStart = True, p_hostSupported = True\<rparr>
      [EffectRun, Result 0 \<lparr>resultIndex = 0, results = [\<lparr>r_transcript = ''yes'', r_confidence = Some 0, r_isFinal = True\<rparr>]\<rparr>] initial))) \<le> 1"
    by blast
  with run show ?thesis by blast
qed

subsection \<open>Restart scheduling\<close>

text \<open>
  The histories below are written for an anchor with a side, auto-start and a recognizer.
  An end event that schedules a restart changes the count, so React runs the effect again
  after it, before the host delivers another event: the histories say where, by the event
  \<open>EffectRun\<close>, and \<open>effect_paced\<close> holds of those in which no other event comes
  between.
\<close>

lemma onend_enabled:
  assumes "restart_enabled p k"
  shows "onend p k s =
     s\<lparr>isListening := False, autoRestartCount := autoRestartCount s + 1,
       pending := pending s @
         [\<lparr>t_handle = nextHandle s, t_delay = 1000 + k_autoRestartCount k * 500,
           t_kind = restart_timer, t_isListening = k_isListening k\<rparr>],
       nextHandle := Suc (nextHandle s),
       autoRestartTimeoutRef := Some (nextHandle s),
       scheduled := scheduled s @ [1000 + k_autoRestartCount k * 500]\<rparr>"
  using assms by (simp add: onend_def setTimeout_def Let_def)

lemma onend_disabled:
  assumes "\<not> restart_enabled p k"
  shows "onend p k s = s\<lparr>isListening := False\<rparr>"
  using assms by (simp add: onend_def)

lemma pending_clearTimeout:
  "pending (clearTimeout h s) = filter (\<lambda>t. t_handle t \<noteq> h) (pending s)"
  by (simp add: clearTimeout_def)

lemma pending_stopListening:
  "pending (stopListening s) =
     (case autoRestartTimeoutRef s of
        Some h \<Rightarrow> filter (\<lambda>t. t_handle t \<noteq> h) (pending s)
      | None \<Rightarrow> pending s)"
  by (simp add: stopListening_def Let_def clearTimeout_def split: option.splits)

lemma pending_cleanup:
  "pending (cleanup s) =
     (case autoRestartTimeoutRef s of
        Some h \<Rightarrow> filter (\<lambda>t. t_handle t \<noteq> h) (pending s)
      | None \<Rightarrow> pending s)"
  by (simp add: cleanup_def Let_def clearTimeout_def split: option.splits)

lemma pending_run_effect: "pending (run_effect p s) = pending (cleanup s)"
  by (simp add: run_effect_def effect_body_def Let_def)

lemma scheduled_stopListening: "scheduled (stopListening s) = scheduled s"
  by (simp add: stopListening_def Let_def clearTimeout_def split: option.splits)

lemma nextHandle_stopListening: "nextHandle (stopListening s) = nextHandle s"
  by (simp add: stopListening_def Let_def clearTimeout_def split: option.splits)

lemma pending_timer_fired_empty: "pending s = [] \<Longrightarrow> timer_fired h started s = s"
  by (simp add: timer_fired_def)

lemma pending_startListening: "pending (startListening p started s) = pending s"
  by (simp add: startListening_def Let_def)

lemma pending_onstart: "pending (onstart s) = pending s"
  by (simp add: onstart_def)

lemma pending_onerror: "pending (onerror code s) = pending s"
  by (simp add: onerror_def Let_def)

lemma pending_onresult: "pending (onresult p e s) = pending s"
  by (simp add: onresult_def Let_def split: option.splits prod.splits)

lemma pending_clearTranscript: "pending (clearTranscript s) = pending s"
  by (simp add: clearTranscript_def)

lemma step_keeps_none_pending:
  assumes "pending s = []" and "\<forall>r. ev \<noteq> Ended r"
  shows "pending (step p s ev) = []"
  using assms
  by (cases ev)
     (simp_all add: pending_run_effect pending_cleanup pending_onstart pending_onerror
        pending_onresult pending_timer_fired_empty pending_startListening
        pending_stopListening pending_clearTranscript split: option.splits)

lemma pending_onend_from_none:
  assumes "pending s = []"
  shows "length (pending (onend p k s)) \<le> 1 \<and> pending (cleanup (onend p k s)) = []"
proof (cases "restart_enabled p k")
  case True
  with assms show ?thesis by (simp add: onend_enabled pending_cleanup)
next
  case False
  with assms show ?thesis by (simp add: onend_disabled pending_cleanup split: option.splits)
qed

lemma step_from_none_pending:
  assumes "pending s = []"
  shows "length (pending (step p s ev)) \<le> 1"
proof (cases "\<exists>r. ev = Ended r")
  case True
  then obtain r where "ev = Ended r" ..
  with assms pending_onend_from_none [OF assms, of p "instances s ! r"] show ?thesis by simp
next
  case False
  with step_keeps_none_pending [OF assms, of ev p] show ?thesis by simp
qed

lemma effect_after_end:
  assumes "pending s = []"
  shows "pending (step p (step p s (Ended r)) EffectRun) = []"
  using assms pending_onend_from_none [OF assms, of p "instances s ! r"]
  by (simp add: pending_run_effect pending_cleanup split: option.splits)

















lemma run_Nil: "run p [] s = s"
  by (simp add: run_def)














text \<open>
  C3, as stated, fails. The error handler only records the message of a permission-denied
  error; the end event of the same session then schedules a restart timer of 1000 ms, as
  it does after any other end.
\<close>

theorem permission_denied_restart_scheduled:
  "scheduled (run \<lparr>p_roomId = ''room'', p_userId = ''ann'', p_participantSide = Some side_a, p_isAnchor = True, p_autoStart = True, p_hostSupported = True\<rparr>
      [EffectRun, StartListening True, Errored 0 ''not-allowed'', Ended 0] initial) = [1000] \<and>
   pending (run \<lparr>p_roomId = ''room'', p_userId = ''ann'', p_participantSide = Some side_a, p_isAnchor = True, p_autoStart = True, p_hostSupported = True\<rparr>
      [EffectRun, StartListening True, Errored 0 ''not-allowed'', Ended 0] initial) =
     [\<lparr>t_handle = 1, t_delay = 1000, t_kind = restart_timer, t_isListening = False\<rparr>] \<and>
   error (run \<lparr>p_roomId = ''room'', p_userId = ''ann'', p_participantSide = Some side_a, p_isAnchor = True, p_autoStart = True, p_hostSupported = True\<rparr>
      [EffectRun, StartListening True, Errored 0 ''not-allowed'', Ended 0] initial) =
     ''Microphone access denied. Please allow microphone access for automatic captions.''"
  by (simp add: session_eval)

text \<open>
  C3, amended. A permission-denied error clears \<^verbatim>\<open>isListening\<close> and records the
  message that microphone access was denied; its handler creates no timer, cancels none
  and leaves the count as it is. The end event that follows schedules a restart timer
  exactly when any end event does: for an anchor with auto-start and a side whose handler
  sees a count below 10, and not otherwise. There is no state in which restarts are off.
\<close>

theorem permission_denied_then_end:
  "\<not> isListening (onerror ''not-allowed'' s) \<and>
   error (onerror ''not-allowed'' s) =
     ''Microphone access denied. Please allow microphone access for automatic captions.'' \<and>
   pending (onerror ''not-allowed'' s) = pending s \<and>
   scheduled (onerror ''not-allowed'' s) = scheduled s \<and>
   autoRestartCount (onerror ''not-allowed'' s) = autoRestartCount s \<and>
   (restart_enabled p k \<longrightarrow>
      scheduled (onend p k (onerror ''not-allowed'' s)) =
        scheduled s @ [1000 + k_autoRestartCount k * 500] \<and>
      pending (onend p k (onerror ''not-allowed'' s)) =
        pending s @
         [\<lparr>t_handle = nextHandle s, t_delay = 1000 + k_autoRestartCount k * 500,
           t_kind = restart_timer, t_isListening = k_isListening k\<rparr>]) \<and>
   (\<not> restart_enabled p k \<longrightarrow>
      scheduled (onend p k (onerror ''not-allowed'' s)) = scheduled s \<and>
      pending (onend p k (onerror ''not-allowed'' s)) = pending s)"
  by (simp add: onend_enabled onend_disabled) (simp add: onerror_def)

theorem permission_denied_then_end_witness:
  "scheduled (onend \<lparr>p_roomId = ''room'', p_userId = ''ann'', p_participantSide = Some side_a, p_isAnchor = True, p_autoStart = True, p_hostSupported = True\<rparr>
      \<lparr>k_autoRestartCount = 0, k_isListening = False\<rparr> (onerror ''not-allowed'' initial)) = [1000]"
proof -
  have "restart_enabled \<lparr>p_roomId = ''room'', p_userId = ''ann'', p_participantSide = Some side_a, p_isAnchor = True, p_autoStart = True, p_hostSupported = True\<rparr>
      \<lparr>k_autoRestartCount = 0, k_isListening = False\<rparr>"
    by (simp add: restart_enabled_def)
  with permission_denied_then_end [of initial "\<lparr>p_roomId = ''room'', p_userId = ''ann'', p_participantSide = Some side_a, p_isAnchor = True, p_autoStart = True, p_hostSupported = True\<rparr>"
      "\<lparr>k_autoRestartCount = 0, k_isListening = False\<rparr>"]
  have "scheduled (onend \<lparr>p_roomId = ''room'', p_userId = ''ann'', p_participantSide = Some side_a, p_isAnchor = True, p_autoStart = True, p_hostSupported = True\<rparr>
      \<lparr>k_autoRestartCount = 0, k_isListening = False\<rparr> (onerror ''not-allowed'' initial)) =
      scheduled initial @ [1000 + k_autoRestartCount \<lparr>k_autoRestartCount = 0, k_isListening = False\<rparr> * 500]"
    by blast
  then show ?thesis by (simp add: initial_def)
qed







end
